theory Spec2Isabelle
  imports Main
begin

section \<open>The Drizzle adapter of zod-paginate: data model\<close>

text \<open>
  The development follows \<^verbatim>\<open>src/drizzle-adapter.ts\<close>. A thrown JavaScript
  \<^verbatim>\<open>Error\<close> is the left injection of a sum, carrying the message of the
  exception; \<^verbatim>\<open>undefined\<close> is \<open>None\<close>. Strings are lists of characters;
  the three characters the adapter treats specially are all ASCII.
\<close>

datatype error = Error string

definition dquote :: char where
  "dquote = CHR 0x22"

definition backslash :: char where
  "backslash = CHR 0x5C"

text \<open>
  \<^verbatim>\<open>String.prototype.replaceAll\<close> with a search string of one character:
  every occurrence of the character is replaced, left to right, and the replacement
  text is not searched again. None of the replacement texts used by the adapter
  contains a dollar sign, so no replacement pattern is expanded.
\<close>

fun replaceAll :: "char \<Rightarrow> string \<Rightarrow> string \<Rightarrow> string" where
  "replaceAll search replacement [] = []"
| "replaceAll search replacement (c # cs) =
     (if c = search then replacement @ replaceAll search replacement cs
      else c # replaceAll search replacement cs)"

text \<open>
  Conversion of a non-negative integer to its decimal text, as a template literal does.
  \<open>digit_char\<close> is only applied to numbers below ten.
\<close>

definition digit_char :: "nat \<Rightarrow> char" where
  "digit_char d = ''0123456789'' ! d"

function string_of_nat :: "nat \<Rightarrow> string" where
  "string_of_nat n =
     (if n < 10 then [digit_char n] else string_of_nat (n div 10) @ [digit_char (n mod 10)])"
  by pat_completeness auto
termination
  by (relation "measure id") auto

subsection \<open>Conditions and the filter tree\<close>

text \<open>
  \<^verbatim>\<open>Condition\<close> is a union discriminated by \<^verbatim>\<open>op\<close>; the payload depends on the
  operator. Scalars are of an arbitrary type \<open>'v\<close>. The \<^verbatim>\<open>not\<close> field is optional.
\<close>

datatype 'v cond_op =
    OpNull
  | OpEq 'v
  | OpIn "'v list"
  | OpContains "string list"
  | OpGt 'v
  | OpGte 'v
  | OpLt 'v
  | OpLte 'v
  | OpBtw 'v 'v
  | OpIlike string
  | OpSw string

record 'v condition =
  group :: string
  op :: "'v cond_op"
  cnot :: "bool option"

datatype 'v where_node =
    Filter string "'v condition"
  | And "'v where_node list"
  | Or "'v where_node list"

datatype sort_direction = ASC | DESC

record sort_item =
  property :: string
  direction :: sort_direction

text \<open>
  The request type is declared by the validator's package. The adapter only tests it
  against \<^verbatim>\<open>LIMIT_OFFSET\<close>; \<open>CURSOR\<close> stands for any other type. Page and limit
  are optional for the adapter, which tests both for presence.
\<close>

datatype pagination_type = LIMIT_OFFSET | CURSOR

record 'v pagination =
  ptype :: pagination_type
  page :: "int option"
  limit :: "int option"
  select :: "string list option"
  sortBy :: "sort_item list option"
  filters :: "'v where_node option"

subsection \<open>Operator sets\<close>

text \<open>
  \<^verbatim>\<open>DrizzleOperatorSet<TColumn, TWhereExpr, TOrderByExpr>\<close>: a record of functions.
  The two variadic combinators take the list of their arguments; the built-in ones throw
  on an empty list, so their result is a sum. \<^verbatim>\<open>contains\<close> is optional.
  Columns and expressions are objects of the query builder, hence never falsy.
\<close>

record ('c, 'v, 'w, 'o) operator_set =
  op_eq :: "'c \<Rightarrow> 'v \<Rightarrow> 'w"
  op_isNull :: "'c \<Rightarrow> 'w"
  op_inArray :: "'c \<Rightarrow> 'v list \<Rightarrow> 'w"
  op_gt :: "'c \<Rightarrow> 'v \<Rightarrow> 'w"
  op_gte :: "'c \<Rightarrow> 'v \<Rightarrow> 'w"
  op_lt :: "'c \<Rightarrow> 'v \<Rightarrow> 'w"
  op_lte :: "'c \<Rightarrow> 'v \<Rightarrow> 'w"
  op_ilike :: "'c \<Rightarrow> string \<Rightarrow> 'w"
  op_and :: "'w list \<Rightarrow> error + 'w"
  op_or :: "'w list \<Rightarrow> error + 'w"
  op_not :: "'w \<Rightarrow> 'w"
  op_asc :: "'c \<Rightarrow> 'o"
  op_desc :: "'c \<Rightarrow> 'o"
  op_contains :: "('c \<Rightarrow> string list \<Rightarrow> 'w) option"

text \<open>
  The primitives imported from the query-builder library, which is not part of the
  repository: they are parameters of the two built-in operator sets. Its \<^verbatim>\<open>and\<close>
  and \<^verbatim>\<open>or\<close> may return \<^verbatim>\<open>undefined\<close>.
\<close>

record ('c, 'v, 's) drizzle_orm =
  drizzleEq :: "'c \<Rightarrow> 'v \<Rightarrow> 's"
  drizzleIsNull :: "'c \<Rightarrow> 's"
  drizzleInArray :: "'c \<Rightarrow> 'v list \<Rightarrow> 's"
  drizzleGt :: "'c \<Rightarrow> 'v \<Rightarrow> 's"
  drizzleGte :: "'c \<Rightarrow> 'v \<Rightarrow> 's"
  drizzleLt :: "'c \<Rightarrow> 'v \<Rightarrow> 's"
  drizzleLte :: "'c \<Rightarrow> 'v \<Rightarrow> 's"
  drizzleIlike :: "'c \<Rightarrow> string \<Rightarrow> 's"
  drizzleLike :: "'c \<Rightarrow> string \<Rightarrow> 's"
  drizzleAnd :: "'s list \<Rightarrow> 's option"
  drizzleOr :: "'s list \<Rightarrow> 's option"
  drizzleNot :: "'s \<Rightarrow> 's"
  drizzleAsc :: "'c \<Rightarrow> 's"
  drizzleDesc :: "'c \<Rightarrow> 's"
  drizzleArrayContains :: "'c \<Rightarrow> string list \<Rightarrow> 's"

definition andSql :: "('c, 'v, 's) drizzle_orm \<Rightarrow> 's list \<Rightarrow> error + 's" where
  "andSql d expressions =
     (case drizzleAnd d expressions of
        None \<Rightarrow> Inl (Error ''Cannot build AND expression from an empty list'')
      | Some result \<Rightarrow> Inr result)"

definition orSql :: "('c, 'v, 's) drizzle_orm \<Rightarrow> 's list \<Rightarrow> error + 's" where
  "orSql d expressions =
     (case drizzleOr d expressions of
        None \<Rightarrow> Inl (Error ''Cannot build OR expression from an empty list'')
      | Some result \<Rightarrow> Inr result)"

definition createPgDrizzleOperators ::
  "('c, 'v, 's) drizzle_orm \<Rightarrow> ('c, 'v, 's, 's) operator_set" where
  "createPgDrizzleOperators d =
     \<lparr> op_eq = drizzleEq d, op_isNull = drizzleIsNull d, op_inArray = drizzleInArray d,
       op_gt = drizzleGt d, op_gte = drizzleGte d, op_lt = drizzleLt d, op_lte = drizzleLte d,
       op_ilike = drizzleIlike d, op_and = andSql d, op_or = orSql d, op_not = drizzleNot d,
       op_asc = drizzleAsc d, op_desc = drizzleDesc d,
       op_contains = Some (drizzleArrayContains d) \<rparr>"

definition createMySqlDrizzleOperators ::
  "('c, 'v, 's) drizzle_orm \<Rightarrow> ('c, 'v, 's, 's) operator_set" where
  "createMySqlDrizzleOperators d =
     \<lparr> op_eq = drizzleEq d, op_isNull = drizzleIsNull d, op_inArray = drizzleInArray d,
       op_gt = drizzleGt d, op_gte = drizzleGte d, op_lt = drizzleLt d, op_lte = drizzleLte d,
       op_ilike = drizzleLike d, op_and = andSql d, op_or = orSql d, op_not = drizzleNot d,
       op_asc = drizzleAsc d, op_desc = drizzleDesc d,
       op_contains = None \<rparr>"

section \<open>The adapter's functions\<close>

definition defaultSelectAlias :: "string \<Rightarrow> string" where
  "defaultSelectAlias path = replaceAll (CHR ''.'') ''_'' path"

definition escapeLike :: "string \<Rightarrow> string" where
  "escapeLike v =
     replaceAll (CHR ''_'') [backslash, CHR ''_'']
       (replaceAll (CHR ''%'') [backslash, CHR ''%'']
         (replaceAll backslash [backslash, backslash] v))"

definition fieldMappingMessage :: "string \<Rightarrow> string" where
  "fieldMappingMessage fieldPath =
     ''No Drizzle field mapping found for '' @ [dquote] @ fieldPath @ [dquote]"

text \<open>
  The field mapping is a JavaScript object, and \<^verbatim>\<open>fields[fieldPath]\<close> is a property
  read: it yields the value of the object's own key when there is one, and otherwise
  whatever the objects along the prototype chain hold under that name. For an object
  literal these are the properties of \<^verbatim>\<open>Object.prototype\<close>, such as
  \<^verbatim>\<open>constructor\<close>, \<^verbatim>\<open>toString\<close> and \<^verbatim>\<open>valueOf\<close>. The mapping is therefore a
  pair: \<open>ownKeys\<close>, the keys to which the mapping itself gives a column, and
  \<open>inherited\<close>, what a read of any other name yields (\<open>None\<close> for
  \<^verbatim>\<open>undefined\<close>). At run time an inherited value is used as a column like any other,
  so it is a value of the column type.
\<close>

record 'c field_mapping =
  ownKeys :: "string \<rightharpoonup> 'c"
  inherited :: "string \<rightharpoonup> 'c"

definition getProperty :: "'c field_mapping \<Rightarrow> string \<Rightarrow> 'c option" where
  "getProperty obj key =
     (case ownKeys obj key of
        Some v \<Rightarrow> Some v
      | None \<Rightarrow> inherited obj key)"

text \<open>
  An assignment \<^verbatim>\<open>selectShape[key] = value\<close> to the object literal under
  construction sets an own key, except for the name \<^verbatim>\<open>__proto__\<close>: that assignment
  reaches the inherited setter, which replaces the prototype and creates no key. The
  select shape is modelled by its own keys.
\<close>

definition setProperty :: "(string \<rightharpoonup> 'c) \<Rightarrow> string \<Rightarrow> 'c \<Rightarrow> (string \<rightharpoonup> 'c)" where
  "setProperty obj key v = (if key = ''__proto__'' then obj else obj(key \<mapsto> v))"

definition getMappedColumn :: "string \<Rightarrow> 'c field_mapping \<Rightarrow> bool \<Rightarrow> error + 'c option" where
  "getMappedColumn fieldPath fieldMap strictFieldMapping =
     (case getProperty fieldMap fieldPath of
        Some mappedColumn \<Rightarrow> Inr (Some mappedColumn)
      | None \<Rightarrow>
          if strictFieldMapping then Inl (Error (fieldMappingMessage fieldPath))
          else Inr None)"

text \<open>
  The loop of \<^verbatim>\<open>buildSelectShapeInternal\<close>, with its two mutable locals passed
  as state: the select shape under construction (an assignment to an existing key
  overwrites it) and the usage counter of every base alias.
\<close>

fun selectLoop ::
  "string list \<Rightarrow> 'c field_mapping \<Rightarrow> bool \<Rightarrow> (string \<Rightarrow> string) \<Rightarrow>
   (string \<rightharpoonup> 'c) \<Rightarrow> (string \<rightharpoonup> nat) \<Rightarrow> error + (string \<rightharpoonup> 'c)" where
  "selectLoop [] fieldMap strictFieldMapping selectAlias selectShape aliasUsageCount =
     Inr selectShape"
| "selectLoop (fieldPath # rest) fieldMap strictFieldMapping selectAlias selectShape aliasUsageCount =
     (case getMappedColumn fieldPath fieldMap strictFieldMapping of
        Inl e \<Rightarrow> Inl e
      | Inr None \<Rightarrow>
          selectLoop rest fieldMap strictFieldMapping selectAlias selectShape aliasUsageCount
      | Inr (Some mappedColumn) \<Rightarrow>
          (let baseAlias = selectAlias fieldPath;
               collisionIndex = (case aliasUsageCount baseAlias of None \<Rightarrow> 0 | Some n \<Rightarrow> n);
               finalAlias =
                 (if collisionIndex = 0 then baseAlias
                  else baseAlias @ ''_'' @ string_of_nat collisionIndex)
           in selectLoop rest fieldMap strictFieldMapping selectAlias
                (setProperty selectShape finalAlias mappedColumn)
                (aliasUsageCount(baseAlias \<mapsto> collisionIndex + 1))))"

definition buildSelectShapeInternal ::
  "string list \<Rightarrow> 'c field_mapping \<Rightarrow> bool \<Rightarrow> (string \<Rightarrow> string) \<Rightarrow> error + (string \<rightharpoonup> 'c)" where
  "buildSelectShapeInternal selectedFields fieldMap strictFieldMapping selectAlias =
     selectLoop selectedFields fieldMap strictFieldMapping selectAlias Map.empty Map.empty"

definition containsMessage :: string where
  "containsMessage =
     ''Operator '' @ [dquote] @ ''$contains'' @ [dquote] @ '' is present but no '' @ [dquote]
       @ ''contains'' @ [dquote] @ '' function is provided in the Drizzle operator set''"

text \<open>
  The \<^verbatim>\<open>switch\<close> of \<^verbatim>\<open>conditionToDrizzleExpr\<close>: the base expression of a
  condition. Its \<^verbatim>\<open>default\<close> branch has no value of the union to run on.
\<close>

fun baseExpression ::
  "'v cond_op \<Rightarrow> 'c \<Rightarrow> ('c, 'v, 'w, 'o) operator_set \<Rightarrow> error + 'w" where
  "baseExpression OpNull column operators = Inr (op_isNull operators column)"
| "baseExpression (OpEq v) column operators = Inr (op_eq operators column v)"
| "baseExpression (OpIn vs) column operators = Inr (op_inArray operators column vs)"
| "baseExpression (OpContains vs) column operators =
     (case op_contains operators of
        None \<Rightarrow> Inl (Error containsMessage)
      | Some contains \<Rightarrow> Inr (contains column vs))"
| "baseExpression (OpGt v) column operators = Inr (op_gt operators column v)"
| "baseExpression (OpGte v) column operators = Inr (op_gte operators column v)"
| "baseExpression (OpLt v) column operators = Inr (op_lt operators column v)"
| "baseExpression (OpLte v) column operators = Inr (op_lte operators column v)"
| "baseExpression (OpBtw startValue endValue) column operators =
     op_and operators [op_gte operators column startValue, op_lte operators column endValue]"
| "baseExpression (OpIlike v) column operators =
     Inr (op_ilike operators column (''%'' @ escapeLike v @ ''%''))"
| "baseExpression (OpSw v) column operators =
     Inr (op_ilike operators column (escapeLike v @ ''%''))"

definition conditionToDrizzleExpr ::
  "'v condition \<Rightarrow> 'c \<Rightarrow> ('c, 'v, 'w, 'o) operator_set \<Rightarrow> error + 'w" where
  "conditionToDrizzleExpr condition column operators =
     (case baseExpression (op condition) column operators of
        Inl e \<Rightarrow> Inl e
      | Inr expression \<Rightarrow>
          if cnot condition = Some True then Inr (op_not operators expression)
          else Inr expression)"

text \<open>
  \<^verbatim>\<open>whereNodeToDrizzleExpr\<close>. The \<^verbatim>\<open>map\<close> over the items of a group compiles
  the children from left to right and stops at the first one that throws; the
  \<^verbatim>\<open>filter\<close> then keeps the expressions that are present.
\<close>

definition combineChildren ::
  "bool \<Rightarrow> ('c, 'v, 'w, 'o) operator_set \<Rightarrow> 'w list \<Rightarrow> error + 'w option" where
  "combineChildren isAnd operators childExpressions =
     (if length childExpressions = 0 then Inr None
      else if length childExpressions = 1 then Inr (Some (hd childExpressions))
      else if isAnd then map_sum id Some (op_and operators childExpressions)
      else map_sum id Some (op_or operators childExpressions))"

fun whereNodeToDrizzleExpr ::
    "'v where_node \<Rightarrow> 'c field_mapping \<Rightarrow> ('c, 'v, 'w, 'o) operator_set \<Rightarrow> bool \<Rightarrow> error + 'w option"
  and mapWhereNodes ::
    "'v where_node list \<Rightarrow> 'c field_mapping \<Rightarrow> ('c, 'v, 'w, 'o) operator_set \<Rightarrow> bool \<Rightarrow>
     error + 'w option list" where
  "whereNodeToDrizzleExpr (Filter field condition) fieldMap operators strictFieldMapping =
     (case getMappedColumn field fieldMap strictFieldMapping of
        Inl e \<Rightarrow> Inl e
      | Inr None \<Rightarrow> Inr None
      | Inr (Some mappedColumn) \<Rightarrow>
          map_sum id Some (conditionToDrizzleExpr condition mappedColumn operators))"
| "whereNodeToDrizzleExpr (And items) fieldMap operators strictFieldMapping =
     (case mapWhereNodes items fieldMap operators strictFieldMapping of
        Inl e \<Rightarrow> Inl e
      | Inr rs \<Rightarrow> combineChildren True operators (List.map_filter id rs))"
| "whereNodeToDrizzleExpr (Or items) fieldMap operators strictFieldMapping =
     (case mapWhereNodes items fieldMap operators strictFieldMapping of
        Inl e \<Rightarrow> Inl e
      | Inr rs \<Rightarrow> combineChildren False operators (List.map_filter id rs))"
| "mapWhereNodes [] fieldMap operators strictFieldMapping = Inr []"
| "mapWhereNodes (itemNode # rest) fieldMap operators strictFieldMapping =
     (case whereNodeToDrizzleExpr itemNode fieldMap operators strictFieldMapping of
        Inl e \<Rightarrow> Inl e
      | Inr r \<Rightarrow>
          (case mapWhereNodes rest fieldMap operators strictFieldMapping of
             Inl e \<Rightarrow> Inl e
           | Inr rs \<Rightarrow> Inr (r # rs)))"

definition directionToOrderExpr ::
  "sort_direction \<Rightarrow> 'c \<Rightarrow> ('c, 'v, 'w, 'o) operator_set \<Rightarrow> 'o" where
  "directionToOrderExpr dir column operators =
     (if dir = ASC then op_asc operators column else op_desc operators column)"

subsection \<open>The clause assembler\<close>

record ('c, 'v, 'w, 'o) build_config =
  cfg_fields :: "'c field_mapping"
  cfg_operators :: "('c, 'v, 'w, 'o) operator_set"
  cfg_selectAlias :: "(string \<Rightarrow> string) option"
  cfg_strictFieldMapping :: "bool option"

record 'v pagination_query_params =
  pq_pagination :: "'v pagination"

record ('c, 'w, 'o) clauses =
  c_select :: "string \<rightharpoonup> 'c"
  c_where :: "'w option"
  c_orderBy :: "'o list option"
  c_limit :: "int option"
  c_offset :: "int option"

text \<open>
  The callback mapped over \<^verbatim>\<open>sortBy\<close>, and a \<^verbatim>\<open>map\<close> whose callback may
  throw: the first exception ends it.
\<close>

definition sortItemToOrderExpr ::
  "'c field_mapping \<Rightarrow> ('c, 'v, 'w, 'o) operator_set \<Rightarrow> bool \<Rightarrow> sort_item \<Rightarrow> error + 'o option" where
  "sortItemToOrderExpr fieldMap operators strictFieldMapping sortItem =
     (case getMappedColumn (property sortItem) fieldMap strictFieldMapping of
        Inl e \<Rightarrow> Inl e
      | Inr None \<Rightarrow> Inr None
      | Inr (Some mappedColumn) \<Rightarrow>
          Inr (Some (directionToOrderExpr (direction sortItem) mappedColumn operators)))"

fun mapThrowing :: "('a \<Rightarrow> error + 'b) \<Rightarrow> 'a list \<Rightarrow> error + 'b list" where
  "mapThrowing f [] = Inr []"
| "mapThrowing f (x # xs) =
     (case f x of
        Inl e \<Rightarrow> Inl e
      | Inr y \<Rightarrow> (case mapThrowing f xs of Inl e \<Rightarrow> Inl e | Inr ys \<Rightarrow> Inr (y # ys)))"

text \<open>The local \<^verbatim>\<open>orderBy\<close>: absent when \<^verbatim>\<open>sortBy\<close> is, by optional chaining.\<close>

definition orderBy ::
  "sort_item list option \<Rightarrow> 'c field_mapping \<Rightarrow> ('c, 'v, 'w, 'o) operator_set \<Rightarrow> bool \<Rightarrow>
   error + 'o list option" where
  "orderBy sortItems fieldMap operators strictFieldMapping =
     (case sortItems of
        None \<Rightarrow> Inr None
      | Some items \<Rightarrow>
          (case mapThrowing (sortItemToOrderExpr fieldMap operators strictFieldMapping) items of
             Inl e \<Rightarrow> Inl e
           | Inr rs \<Rightarrow> Inr (Some (List.map_filter id rs))))"

text \<open>
  The local \<^verbatim>\<open>offset\<close>. Page and limit are JavaScript numbers; the request's
  are integers, and the arithmetic is the integers' as long as it is exact.
\<close>

definition offset :: "'v pagination \<Rightarrow> int option" where
  "offset p =
     (case (page p, limit p) of
        (Some pg, Some lim) \<Rightarrow>
          if ptype p = LIMIT_OFFSET
          then (let safePage = (if pg > 0 then pg else 1) in Some ((safePage - 1) * lim))
          else None
      | _ \<Rightarrow> None)"

definition buildDrizzleClausesFromPagination ::
  "'v pagination_query_params \<Rightarrow> ('c, 'v, 'w, 'o) build_config \<Rightarrow> error + ('c, 'w, 'o) clauses" where
  "buildDrizzleClausesFromPagination parsed config =
     (let strictFieldMapping = (case cfg_strictFieldMapping config of None \<Rightarrow> True | Some b \<Rightarrow> b);
          aliasBuilder = (case cfg_selectAlias config of None \<Rightarrow> defaultSelectAlias | Some f \<Rightarrow> f);
          p = pq_pagination parsed
      in case buildSelectShapeInternal (case select p of None \<Rightarrow> [] | Some paths \<Rightarrow> paths)
                (cfg_fields config) strictFieldMapping aliasBuilder of
           Inl e \<Rightarrow> Inl e
         | Inr selectShape \<Rightarrow>
             (case (case filters p of
                      None \<Rightarrow> Inr None
                    | Some node \<Rightarrow>
                        whereNodeToDrizzleExpr node (cfg_fields config) (cfg_operators config)
                          strictFieldMapping) of
                Inl e \<Rightarrow> Inl e
              | Inr whereExpr \<Rightarrow>
                  (case orderBy (sortBy p) (cfg_fields config) (cfg_operators config)
                          strictFieldMapping of
                     Inl e \<Rightarrow> Inl e
                   | Inr orderExprs \<Rightarrow>
                       Inr \<lparr> c_select = selectShape,
                             c_where = whereExpr,
                             c_orderBy =
                               (case orderExprs of
                                  None \<Rightarrow> None
                                | Some os \<Rightarrow> if length os > 0 then Some os else None),
                             c_limit = limit p,
                             c_offset = offset p \<rparr>)))"

section \<open>A term model of the query builder\<close>

text \<open>
  To run the adapter on concrete requests, the library's primitives are interpreted as
  the constructors of a term language: every primitive builds the term that names it.
  The library's \<^verbatim>\<open>and\<close> and \<^verbatim>\<open>or\<close> return \<^verbatim>\<open>undefined\<close> on no argument.
\<close>

datatype ('c, 'v) sql =
    SqlEq 'c 'v
  | SqlIsNull 'c
  | SqlInArray 'c "'v list"
  | SqlGt 'c 'v
  | SqlGte 'c 'v
  | SqlLt 'c 'v
  | SqlLte 'c 'v
  | SqlIlike 'c string
  | SqlLike 'c string
  | SqlAnd "('c, 'v) sql list"
  | SqlOr "('c, 'v) sql list"
  | SqlNot "('c, 'v) sql"
  | SqlAsc 'c
  | SqlDesc 'c
  | SqlArrayContains 'c "string list"

definition termDrizzle :: "('c, 'v, ('c, 'v) sql) drizzle_orm" where
  "termDrizzle =
     \<lparr> drizzleEq = SqlEq, drizzleIsNull = SqlIsNull, drizzleInArray = SqlInArray,
       drizzleGt = SqlGt, drizzleGte = SqlGte, drizzleLt = SqlLt, drizzleLte = SqlLte,
       drizzleIlike = SqlIlike, drizzleLike = SqlLike,
       drizzleAnd = (\<lambda>xs. if xs = [] then None else Some (SqlAnd xs)),
       drizzleOr = (\<lambda>xs. if xs = [] then None else Some (SqlOr xs)),
       drizzleNot = SqlNot, drizzleAsc = SqlAsc, drizzleDesc = SqlDesc,
       drizzleArrayContains = SqlArrayContains \<rparr>"

definition pgOps :: "(string, int, (string, int) sql, (string, int) sql) operator_set" where
  "pgOps = createPgDrizzleOperators termDrizzle"

definition mysqlOps :: "(string, int, (string, int) sql, (string, int) sql) operator_set" where
  "mysqlOps = createMySqlDrizzleOperators termDrizzle"

section \<open>Notions used to state the properties\<close>

text \<open>
  The escaping as the specification words it: each backslash, percent sign and underscore
  of the literal value is preceded by a backslash, every other character is kept.
\<close>

definition escapeChar :: "char \<Rightarrow> string" where
  "escapeChar c =
     (if c = backslash \<or> c = CHR ''%'' \<or> c = CHR ''_'' then [backslash, c] else [c])"

definition escaped :: "string \<Rightarrow> string" where
  "escaped v = concat (map escapeChar v)"

text \<open>
  A filter tree has a leaf with the containment operator on a field for which the
  mapping yields a column.
\<close>

fun hasMappedContains :: "'v where_node \<Rightarrow> 'c field_mapping \<Rightarrow> bool" where
  "hasMappedContains (Filter f condition) fieldMap =
     (getProperty fieldMap f \<noteq> None \<and> (case op condition of OpContains vs \<Rightarrow> True | _ \<Rightarrow> False))"
| "hasMappedContains (And items) fieldMap = (\<exists>n \<in> set items. hasMappedContains n fieldMap)"
| "hasMappedContains (Or items) fieldMap = (\<exists>n \<in> set items. hasMappedContains n fieldMap)"

subsection \<open>Sample requests\<close>

text \<open>
  The properties every object literal inherits from \<^verbatim>\<open>Object.prototype\<close>, each
  represented by a name for the value it holds, and the mapping written as an object
  literal with the given keys.
\<close>

definition objectPrototype :: "string \<rightharpoonup> string" where
  "objectPrototype = map_of
     [(''constructor'', ''Object''),
      (''hasOwnProperty'', ''Object.prototype.hasOwnProperty''),
      (''isPrototypeOf'', ''Object.prototype.isPrototypeOf''),
      (''propertyIsEnumerable'', ''Object.prototype.propertyIsEnumerable''),
      (''toLocaleString'', ''Object.prototype.toLocaleString''),
      (''toString'', ''Object.prototype.toString''),
      (''valueOf'', ''Object.prototype.valueOf''),
      (''__proto__'', ''Object.prototype''),
      (''__defineGetter__'', ''Object.prototype.__defineGetter__''),
      (''__defineSetter__'', ''Object.prototype.__defineSetter__''),
      (''__lookupGetter__'', ''Object.prototype.__lookupGetter__''),
      (''__lookupSetter__'', ''Object.prototype.__lookupSetter__'')]"

definition objectLiteral :: "(string \<rightharpoonup> string) \<Rightarrow> string field_mapping" where
  "objectLiteral keys = \<lparr> ownKeys = keys, inherited = objectPrototype \<rparr>"

text \<open>A field mapping and three leaves over it; \<^verbatim>\<open>unknown\<close> is not a key of the mapping.\<close>

definition usersFields :: "string field_mapping" where
  "usersFields = objectLiteral [''name'' \<mapsto> ''users.name'', ''age'' \<mapsto> ''users.age'']"

definition nameOnlyFields :: "string field_mapping" where
  "nameOnlyFields = objectLiteral [''name'' \<mapsto> ''users.name'']"

definition unknownLeaf :: "int where_node" where
  "unknownLeaf = Filter ''unknown'' \<lparr>group = ''unknown'', op = OpEq 7, cnot = None\<rparr>"

definition nameLeaf :: "int where_node" where
  "nameLeaf = Filter ''name'' \<lparr>group = ''name'', op = OpEq 1, cnot = None\<rparr>"

definition ageLeaf :: "int where_node" where
  "ageLeaf = Filter ''age'' \<lparr>group = ''age'', op = OpGt 18, cnot = Some True\<rparr>"

text \<open>
  A configuration with the PostgreSQL operators and the default alias and mode, and
  requests of the shapes used by the repository's tests.
\<close>

definition pgConfig :: "(string, int, (string, int) sql, (string, int) sql) build_config" where
  "pgConfig = \<lparr> cfg_fields = usersFields, cfg_operators = pgOps, cfg_selectAlias = None,
                cfg_strictFieldMapping = None \<rparr>"

definition pageRequest ::
  "pagination_type \<Rightarrow> int option \<Rightarrow> int option \<Rightarrow> int pagination_query_params" where
  "pageRequest t pg lim =
     \<lparr> pq_pagination = \<lparr> ptype = t, page = pg, limit = lim, select = None, sortBy = None,
                          filters = None \<rparr> \<rparr>"

definition selectRequest :: "string list \<Rightarrow> int pagination_query_params" where
  "selectRequest paths =
     \<lparr> pq_pagination = \<lparr> ptype = LIMIT_OFFSET, page = Some 1, limit = Some 10,
                          select = Some paths, sortBy = None, filters = None \<rparr> \<rparr>"

definition sortRequest :: "sort_item list \<Rightarrow> int pagination_query_params" where
  "sortRequest items =
     \<lparr> pq_pagination = \<lparr> ptype = LIMIT_OFFSET, page = Some 1, limit = Some 10,
                          select = None, sortBy = Some items, filters = None \<rparr> \<rparr>"

definition profileFields :: "string field_mapping" where
  "profileFields = objectLiteral
     [''profile.name'' \<mapsto> ''users.name'', ''profile_name'' \<mapsto> ''users.age'',
      ''profile_name_1'' \<mapsto> ''users.nick'']"

section \<open>Auxiliary facts\<close>

declare string_of_nat.simps [simp del]

lemma replaceAll_append:
  "replaceAll s r (xs @ ys) = replaceAll s r xs @ replaceAll s r ys"
  by (induction xs) auto

lemma escapeLike_Nil: "escapeLike [] = []"
  by (simp add: escapeLike_def)

lemma escapeLike_Cons: "escapeLike (c # cs) = escapeChar c @ escapeLike cs"
  by (simp add: escapeLike_def escapeChar_def backslash_def replaceAll_append)

lemma escapeLike_escaped: "escapeLike v = escaped v"
  by (induction v) (simp_all add: escapeLike_Nil escapeLike_Cons escaped_def)

lemma getProperty_ownKeys:
  "(ownKeys fieldMap p = None \<longrightarrow> inherited fieldMap p = None) \<Longrightarrow>
   getProperty fieldMap p = ownKeys fieldMap p"
  by (simp add: getProperty_def split: option.splits)

lemma literal_lookups:
  "getProperty usersFields ''name'' = Some ''users.name''"
  "getProperty usersFields ''age'' = Some ''users.age''"
  "getProperty usersFields ''unknown'' = None"
  "getProperty usersFields ''unknownSelect'' = None"
  "getProperty usersFields ''unknownSort'' = None"
  "getProperty nameOnlyFields ''name'' = Some ''users.name''"
  "getProperty nameOnlyFields ''missing'' = None"
  "getProperty nameOnlyFields ''constructor'' = Some ''Object''"
  by (simp_all add: getProperty_def usersFields_def nameOnlyFields_def objectLiteral_def
      objectPrototype_def)

lemma getMappedColumn_unmapped:
  "getProperty fieldMap f = None \<Longrightarrow>
   getMappedColumn f fieldMap strict =
     (if strict then Inl (Error (fieldMappingMessage f)) else Inr None)"
  by (simp add: getMappedColumn_def)

lemma getMappedColumn_mapped:
  "getProperty fieldMap f = Some c \<Longrightarrow> getMappedColumn f fieldMap strict = Inr (Some c)"
  by (simp add: getMappedColumn_def)

lemma leaf_lookup_undefined:
  "getProperty fieldMap f = None \<Longrightarrow>
     whereNodeToDrizzleExpr (Filter f condition) fieldMap operators True
       = Inl (Error (fieldMappingMessage f))
   \<and> whereNodeToDrizzleExpr (Filter f condition) fieldMap operators False = Inr None"
  by (simp add: getMappedColumn_unmapped)

lemma contains_tree_fails:
  fixes operators :: "('c, 'v, 'w, 'o) operator_set"
  shows "op_contains operators = None \<Longrightarrow> hasMappedContains node fieldMap \<Longrightarrow>
           isl (whereNodeToDrizzleExpr node fieldMap operators strict)"
    and "op_contains operators = None \<Longrightarrow> \<exists>n \<in> set items. hasMappedContains n fieldMap \<Longrightarrow>
           isl (mapWhereNodes items fieldMap operators strict)"
proof (induction node fieldMap operators strict and items fieldMap operators strict
    rule: whereNodeToDrizzleExpr_mapWhereNodes.induct)
  case (1 field condition fieldMap operators strictFieldMapping)
  then show ?case
    by (auto simp: getMappedColumn_def conditionToDrizzleExpr_def
        split: cond_op.splits option.splits)
next
  case (2 items fieldMap operators strictFieldMapping)
  then show ?case by (auto split: sum.splits)
next
  case (3 items fieldMap operators strictFieldMapping)
  then show ?case by (auto split: sum.splits)
next
  case (4 fieldMap operators strictFieldMapping)
  then show ?case by simp
next
  case (5 itemNode rest fieldMap operators strictFieldMapping)
  then show ?case by (fastforce split: sum.splits)
qed

lemma mapWhereNodes_Inr_I:
  "list_all2 (\<lambda>n r. whereNodeToDrizzleExpr n fieldMap operators strict = Inr r) items rs \<Longrightarrow>
   mapWhereNodes items fieldMap operators strict = Inr rs"
  by (induction items rs rule: list_all2_induct) simp_all

lemma leaf_values:
  "whereNodeToDrizzleExpr unknownLeaf usersFields pgOps False = Inr None"
  "whereNodeToDrizzleExpr nameLeaf usersFields pgOps False = Inr (Some (SqlEq ''users.name'' 1))"
  "whereNodeToDrizzleExpr ageLeaf usersFields pgOps False
     = Inr (Some (SqlNot (SqlGt ''users.age'' 18)))"
  by (simp_all add: unknownLeaf_def nameLeaf_def ageLeaf_def literal_lookups getMappedColumn_def
      conditionToDrizzleExpr_def pgOps_def createPgDrizzleOperators_def termDrizzle_def)

lemma selectLoop_permissive_filter:
  "selectLoop paths fieldMap False selectAlias shape counts
     = selectLoop (filter (\<lambda>p. getProperty fieldMap p \<noteq> None) paths) fieldMap False selectAlias
         shape counts"
  by (induction paths arbitrary: shape counts)
     (auto simp: getMappedColumn_def Let_def split: option.splits)

lemma selectLoop_permissive_total:
  "\<exists>result. selectLoop paths fieldMap False selectAlias shape counts = Inr result"
  by (induction paths arbitrary: shape counts)
     (auto simp: getMappedColumn_def Let_def split: option.splits)

lemma selectLoop_strict_unmapped:
  "find (\<lambda>p. getProperty fieldMap p = None) paths = Some q \<Longrightarrow>
   selectLoop paths fieldMap True selectAlias shape counts = Inl (Error (fieldMappingMessage q))"
  by (induction paths arbitrary: shape counts)
     (auto simp: getMappedColumn_def Let_def split: option.splits if_splits)

lemma selectLoop_strict_all_mapped:
  "find (\<lambda>p. getProperty fieldMap p = None) paths = None \<Longrightarrow>
   selectLoop paths fieldMap True selectAlias shape counts
     = selectLoop paths fieldMap False selectAlias shape counts"
  by (induction paths arbitrary: shape counts)
     (auto simp: getMappedColumn_def Let_def split: option.splits if_splits)

lemma mapThrowing_sort_permissive:
  "mapThrowing (sortItemToOrderExpr fieldMap operators False) items
     = Inr (map (\<lambda>i. map_option (\<lambda>c. directionToOrderExpr (direction i) c operators)
                       (getProperty fieldMap (property i))) items)"
  by (induction items) (auto simp: sortItemToOrderExpr_def getMappedColumn_def split: option.splits)

lemma mapThrowing_sort_strict_unmapped:
  "find (\<lambda>i. getProperty fieldMap (property i) = None) items = Some j \<Longrightarrow>
   mapThrowing (sortItemToOrderExpr fieldMap operators True) items
     = Inl (Error (fieldMappingMessage (property j)))"
  by (induction items)
     (auto simp: sortItemToOrderExpr_def getMappedColumn_def split: option.splits if_splits)

lemma mapThrowing_sort_strict_all_mapped:
  "find (\<lambda>i. getProperty fieldMap (property i) = None) items = None \<Longrightarrow>
   mapThrowing (sortItemToOrderExpr fieldMap operators True) items
     = mapThrowing (sortItemToOrderExpr fieldMap operators False) items"
  by (induction items)
     (auto simp: sortItemToOrderExpr_def getMappedColumn_def split: option.splits if_splits)

lemma build_Inr_limit_offset:
  "buildDrizzleClausesFromPagination parsed config = Inr cl \<Longrightarrow>
   c_limit cl = limit (pq_pagination parsed) \<and> c_offset cl = offset (pq_pagination parsed)"
  by (auto simp: buildDrizzleClausesFromPagination_def Let_def split: sum.splits)

lemma build_pageRequest:
  "buildDrizzleClausesFromPagination (pageRequest t pg lim) pgConfig
     = Inr \<lparr> c_select = Map.empty, c_where = None, c_orderBy = None, c_limit = lim,
             c_offset = offset (pq_pagination (pageRequest t pg lim)) \<rparr>"
  by (simp add: buildDrizzleClausesFromPagination_def pageRequest_def pgConfig_def
      buildSelectShapeInternal_def orderBy_def)

section \<open>Properties of the condition compiler\<close>

text \<open>
  Claim C7. Compiling a \<^verbatim>\<open>$contains\<close> condition against an operator set without a
  \<^verbatim>\<open>contains\<close> primitive fails with the unsupported-operator error, whatever the
  negation flag. The failure is that of the whole call: a leaf on a field for which the
  mapping yields a column fails with it, and a filter tree that has such a leaf anywhere
  fails; no group prunes it.
  The built-in MySQL operator set has no \<^verbatim>\<open>contains\<close> primitive.
\<close>

theorem contains_without_primitive_fails:
  fixes operators :: "('c, 'v, 'w, 'o) operator_set"
  assumes "op_contains operators = None"
  shows "conditionToDrizzleExpr \<lparr>group = g, op = OpContains vs, cnot = n\<rparr> column operators
           = Inl (Error containsMessage)
         \<and> (getProperty fieldMap f = Some column \<longrightarrow>
              whereNodeToDrizzleExpr (Filter f \<lparr>group = g, op = OpContains vs, cnot = n\<rparr>)
                fieldMap operators strict = Inl (Error containsMessage))
         \<and> (hasMappedContains node fieldMap \<longrightarrow>
              isl (whereNodeToDrizzleExpr node fieldMap operators strict))
         \<and> op_contains (createMySqlDrizzleOperators d) = None"
  using assms contains_tree_fails(1) [of operators node fieldMap strict]
  by (simp add: conditionToDrizzleExpr_def getMappedColumn_def createMySqlDrizzleOperators_def)

theorem contains_without_primitive_fails_witness:
  "op_contains mysqlOps = None
   \<and> whereNodeToDrizzleExpr
        (Filter ''name'' \<lparr>group = ''name'', op = OpContains [''x''], cnot = None\<rparr>)
        nameOnlyFields mysqlOps True = Inl (Error containsMessage)
   \<and> hasMappedContains
        (And [Filter ''age'' \<lparr>group = ''age'', op = OpGt 18, cnot = None\<rparr>,
              Or [Filter ''name'' \<lparr>group = ''name'', op = OpContains [''x''], cnot = Some True\<rparr>]])
        usersFields
   \<and> isl (whereNodeToDrizzleExpr
        (And [Filter ''age'' \<lparr>group = ''age'', op = OpGt 18, cnot = None\<rparr>,
              Or [Filter ''name'' \<lparr>group = ''name'', op = OpContains [''x''], cnot = Some True\<rparr>]])
        usersFields mysqlOps False)"
proof -
  have h: "op_contains mysqlOps = None"
    by (simp add: mysqlOps_def createMySqlDrizzleOperators_def)
  show ?thesis
    using h
      contains_without_primitive_fails [OF h, of "''name''" "[''x'']" None "''users.name''"
        nameOnlyFields "''name''" True
        "Filter ''name'' \<lparr>group = ''name'', op = OpContains [''x''], cnot = None\<rparr>"]
      contains_without_primitive_fails [OF h, of "''name''" "[''x'']" None "''users.name''"
        usersFields "''name''" False
        "And [Filter ''age'' \<lparr>group = ''age'', op = OpGt 18, cnot = None\<rparr>,
              Or [Filter ''name'' \<lparr>group = ''name'', op = OpContains [''x''], cnot = Some True\<rparr>]]"]
    by (simp add: literal_lookups getMappedColumn_def conditionToDrizzleExpr_def)
qed

text \<open>
  Claim C9. For every string value, \<^verbatim>\<open>$ilike\<close> calls the pattern-match primitive with
  the pattern percent, escaped value, percent, and \<^verbatim>\<open>$sw\<close> calls it with escaped
  value, percent, where the escaped value is the literal value with a backslash put
  before each of its backslashes, percent signs and underscores. The three successive
  replacements of \<^verbatim>\<open>escapeLike\<close> compute exactly that text. A negated condition wraps
  the same call in the logical-not primitive.
\<close>

theorem like_patterns_are_escaped:
  "escapeLike v = escaped v
   \<and> baseExpression (OpIlike v) column operators
       = Inr (op_ilike operators column (''%'' @ escaped v @ ''%''))
   \<and> baseExpression (OpSw v) column operators
       = Inr (op_ilike operators column (escaped v @ ''%''))
   \<and> conditionToDrizzleExpr \<lparr>group = g, op = OpIlike v, cnot = n\<rparr> column operators
       = Inr (if n = Some True
              then op_not operators (op_ilike operators column (''%'' @ escaped v @ ''%''))
              else op_ilike operators column (''%'' @ escaped v @ ''%''))
   \<and> conditionToDrizzleExpr \<lparr>group = g, op = OpSw v, cnot = n\<rparr> column operators
       = Inr (if n = Some True
              then op_not operators (op_ilike operators column (escaped v @ ''%''))
              else op_ilike operators column (escaped v @ ''%''))"
  by (simp add: escapeLike_escaped conditionToDrizzleExpr_def)

theorem like_patterns_are_escaped_witness:
  "escapeLike ''al_ice%''
     = [CHR ''a'', CHR ''l'', CHR 0x5C, CHR ''_'', CHR ''i'', CHR ''c'', CHR ''e'', CHR 0x5C, CHR ''%'']
   \<and> conditionToDrizzleExpr \<lparr>group = ''name'', op = OpIlike ''al_ice%'', cnot = None\<rparr>
        ''users.name'' pgOps
     = Inr (SqlIlike ''users.name''
         [CHR ''%'', CHR ''a'', CHR ''l'', CHR 0x5C, CHR ''_'', CHR ''i'', CHR ''c'', CHR ''e'',
          CHR 0x5C, CHR ''%'', CHR ''%''])
   \<and> conditionToDrizzleExpr \<lparr>group = ''name'', op = OpSw ''jo%n'', cnot = None\<rparr>
        ''users.name'' mysqlOps
     = Inr (SqlLike ''users.name'' [CHR ''j'', CHR ''o'', CHR 0x5C, CHR ''%'', CHR ''n'', CHR ''%''])"
  using like_patterns_are_escaped [of "''al_ice%''" "''users.name''" pgOps "''name''" None]
    like_patterns_are_escaped [of "''jo%n''" "''users.name''" mysqlOps "''name''" None]
  by (simp add: escaped_def escapeChar_def backslash_def pgOps_def mysqlOps_def
      createPgDrizzleOperators_def createMySqlDrizzleOperators_def termDrizzle_def)

text \<open>
  Claim C6. For every column and every pair of bounds, the base expression of a
  \<^verbatim>\<open>$btw\<close> condition is the operator set's \<^verbatim>\<open>and\<close> applied to
  \<^verbatim>\<open>gte(column, a)\<close> and \<^verbatim>\<open>lte(column, b)\<close>, and this is what the condition
  compiles to when it is not negated (a negated one wraps that conjunction in the
  logical-not primitive). Equivalently, a \<^verbatim>\<open>$btw\<close> leaf on a field compiles to the same
  result as the conjunction group of a \<^verbatim>\<open>$gte\<close> leaf and a \<^verbatim>\<open>$lte\<close> leaf on
  that field, whatever the mapping yields for the field and in both mapping modes.
\<close>

theorem btw_is_gte_and_lte:
  "baseExpression (OpBtw a b) column operators
     = op_and operators [op_gte operators column a, op_lte operators column b]
   \<and> conditionToDrizzleExpr \<lparr>group = g, op = OpBtw a b, cnot = None\<rparr> column operators
     = op_and operators [op_gte operators column a, op_lte operators column b]
   \<and> conditionToDrizzleExpr \<lparr>group = g, op = OpBtw a b, cnot = Some False\<rparr> column operators
     = op_and operators [op_gte operators column a, op_lte operators column b]
   \<and> conditionToDrizzleExpr \<lparr>group = g, op = OpBtw a b, cnot = Some True\<rparr> column operators
     = map_sum id (op_not operators)
         (op_and operators [op_gte operators column a, op_lte operators column b])
   \<and> whereNodeToDrizzleExpr (Filter f \<lparr>group = g, op = OpBtw a b, cnot = None\<rparr>)
        fieldMap operators strict
     = whereNodeToDrizzleExpr
        (And [Filter f \<lparr>group = g1, op = OpGte a, cnot = None\<rparr>,
              Filter f \<lparr>group = g2, op = OpLte b, cnot = None\<rparr>])
        fieldMap operators strict"
  by (cases "op_and operators [op_gte operators column a, op_lte operators column b]";
      cases "getProperty fieldMap f"; cases strict)
     (simp_all add: conditionToDrizzleExpr_def getMappedColumn_def combineChildren_def
        split: sum.splits)

theorem btw_is_gte_and_lte_witness:
  "conditionToDrizzleExpr \<lparr>group = ''age'', op = OpBtw 30 40, cnot = None\<rparr> ''users.age'' pgOps
     = Inr (SqlAnd [SqlGte ''users.age'' 30, SqlLte ''users.age'' 40])
   \<and> whereNodeToDrizzleExpr
        (And [Filter ''age'' \<lparr>group = ''age'', op = OpGte 30, cnot = None\<rparr>,
              Filter ''age'' \<lparr>group = ''age'', op = OpLte 40, cnot = None\<rparr>])
        usersFields pgOps True
     = Inr (Some (SqlAnd [SqlGte ''users.age'' 30, SqlLte ''users.age'' 40]))"
  using btw_is_gte_and_lte [of 30 40 "''users.age''" pgOps "''age''" "''age''" usersFields True
      "''age''" "''age''"]
  by (simp add: literal_lookups getMappedColumn_def conditionToDrizzleExpr_def pgOps_def
      createPgDrizzleOperators_def termDrizzle_def andSql_def)

section \<open>Properties of the filter-tree compiler\<close>

text \<open>
  Claim C8 says that a leaf whose field path is not a key of the field mapping fails
  under strict mapping and is pruned under permissive mapping. That is what the leaf
  does when the property read yields nothing (\<open>leaf_lookup_undefined\<close>). The read also
  finds the properties the mapping object inherits: with the mapping written as the
  object literal with the single key \<^verbatim>\<open>name\<close>, the path \<^verbatim>\<open>constructor\<close> is not a key
  of the mapping, yet the read yields the inherited \<^verbatim>\<open>Object\<close> function, and the
  leaf is compiled against it as if it were a column: no error under strict mapping, no
  pruning under permissive mapping.
\<close>

theorem inherited_name_leaf_is_compiled:
  "ownKeys nameOnlyFields ''constructor'' = None
   \<and> whereNodeToDrizzleExpr
        (Filter ''constructor'' \<lparr>group = ''constructor'', op = OpEq 1, cnot = None\<rparr>)
        nameOnlyFields pgOps True
       = Inr (Some (SqlEq ''Object'' 1))
   \<and> whereNodeToDrizzleExpr
        (Filter ''constructor'' \<lparr>group = ''constructor'', op = OpEq 1, cnot = None\<rparr>)
        nameOnlyFields pgOps False
       = Inr (Some (SqlEq ''Object'' 1))"
  by (simp add: literal_lookups getMappedColumn_def conditionToDrizzleExpr_def pgOps_def
      createPgDrizzleOperators_def termDrizzle_def)
     (simp add: nameOnlyFields_def objectLiteral_def)

text \<open>
  Claim C5. For a conjunction or disjunction group whose children all compile (each to
  an expression or to absent), the group discards the absent results and then: with no
  survivor it compiles to absent; with exactly one survivor it compiles to that
  expression itself, unwrapped; with two or more it applies the group's \<^verbatim>\<open>and\<close>,
  respectively \<^verbatim>\<open>or\<close>, primitive to the survivors, in order.
\<close>

theorem group_prunes_flattens_combines:
  assumes "list_all2 (\<lambda>n r. whereNodeToDrizzleExpr n fieldMap operators strict = Inr r) items rs"
  shows "whereNodeToDrizzleExpr (And items) fieldMap operators strict
           = (case List.map_filter id rs of
                [] \<Rightarrow> Inr None
              | [e] \<Rightarrow> Inr (Some e)
              | e1 # e2 # es \<Rightarrow> map_sum id Some (op_and operators (e1 # e2 # es)))
         \<and> whereNodeToDrizzleExpr (Or items) fieldMap operators strict
           = (case List.map_filter id rs of
                [] \<Rightarrow> Inr None
              | [e] \<Rightarrow> Inr (Some e)
              | e1 # e2 # es \<Rightarrow> map_sum id Some (op_or operators (e1 # e2 # es)))"
  using assms
  by (simp add: mapWhereNodes_Inr_I combineChildren_def split: list.splits)

theorem group_prunes_flattens_combines_witness:
  "whereNodeToDrizzleExpr (And [unknownLeaf]) usersFields pgOps False = Inr None
   \<and> whereNodeToDrizzleExpr (Or [unknownLeaf]) usersFields pgOps False = Inr None
   \<and> whereNodeToDrizzleExpr (And [unknownLeaf, nameLeaf]) usersFields pgOps False
       = Inr (Some (SqlEq ''users.name'' 1))
   \<and> whereNodeToDrizzleExpr (Or [unknownLeaf, nameLeaf]) usersFields pgOps False
       = Inr (Some (SqlEq ''users.name'' 1))
   \<and> whereNodeToDrizzleExpr (And [nameLeaf, unknownLeaf, ageLeaf]) usersFields pgOps False
       = Inr (Some (SqlAnd [SqlEq ''users.name'' 1, SqlNot (SqlGt ''users.age'' 18)]))
   \<and> whereNodeToDrizzleExpr (Or [nameLeaf, unknownLeaf, ageLeaf]) usersFields pgOps False
       = Inr (Some (SqlOr [SqlEq ''users.name'' 1, SqlNot (SqlGt ''users.age'' 18)]))"
proof -
  have h0: "list_all2 (\<lambda>n r. whereNodeToDrizzleExpr n usersFields pgOps False = Inr r)
              [unknownLeaf] [None]"
    by (simp add: leaf_values)
  have h1: "list_all2 (\<lambda>n r. whereNodeToDrizzleExpr n usersFields pgOps False = Inr r)
              [unknownLeaf, nameLeaf] [None, Some (SqlEq ''users.name'' 1)]"
    by (simp add: leaf_values)
  have h2: "list_all2 (\<lambda>n r. whereNodeToDrizzleExpr n usersFields pgOps False = Inr r)
              [nameLeaf, unknownLeaf, ageLeaf]
              [Some (SqlEq ''users.name'' 1), None, Some (SqlNot (SqlGt ''users.age'' 18))]"
    by (simp add: leaf_values)
  have ops: "op_and pgOps = andSql termDrizzle" "op_or pgOps = orSql termDrizzle"
    by (simp_all add: pgOps_def createPgDrizzleOperators_def)
  show ?thesis
    using group_prunes_flattens_combines [OF h0] group_prunes_flattens_combines [OF h1]
      group_prunes_flattens_combines [OF h2]
    by (simp add: ops andSql_def orSql_def termDrizzle_def)
qed

section \<open>Properties of the select-shape builder\<close>

text \<open>
  Claim C1, as the specification states it, says that an unmapped select path is
  skipped under every mapping mode. The builder passes the mode on to the field
  resolver, so under strict mapping (also the default of the assembler) an unmapped
  select path ends the build with the field-mapping error.
\<close>

theorem select_unmapped_strict_counterexample:
  "buildSelectShapeInternal [''name'', ''unknownSelect''] usersFields True defaultSelectAlias
     = Inl (Error (fieldMappingMessage ''unknownSelect''))
   \<and> buildDrizzleClausesFromPagination (selectRequest [''name'', ''unknownSelect''])
        (pgConfig \<lparr> cfg_strictFieldMapping := Some True \<rparr>)
     = Inl (Error (fieldMappingMessage ''unknownSelect''))
   \<and> buildDrizzleClausesFromPagination (selectRequest [''name'', ''unknownSelect'']) pgConfig
     = Inl (Error (fieldMappingMessage ''unknownSelect''))"
  by (simp add: buildDrizzleClausesFromPagination_def selectRequest_def pgConfig_def
      buildSelectShapeInternal_def getMappedColumn_def literal_lookups Let_def)

text \<open>
  Claim C1, amended. For every select list in which no path outside the keys of the
  field mapping is the name of a property that the mapping object inherits: under
  permissive mapping the build never fails and the paths that are not keys of the
  mapping are dropped (the shape is the one built from the mapped paths alone); under
  strict mapping the build fails with the field-mapping error naming the first path
  that is not a key of the mapping, and when every path is a key it builds the same
  shape as under permissive mapping.
\<close>

theorem select_unmapped_paths:
  assumes "\<forall>p \<in> set paths. ownKeys fieldMap p = None \<longrightarrow> inherited fieldMap p = None"
  shows "(\<exists>shape. buildSelectShapeInternal paths fieldMap False selectAlias = Inr shape
            \<and> buildSelectShapeInternal (filter (\<lambda>p. ownKeys fieldMap p \<noteq> None) paths) fieldMap
                 False selectAlias = Inr shape)
         \<and> (find (\<lambda>p. ownKeys fieldMap p = None) paths = Some q \<longrightarrow>
              buildSelectShapeInternal paths fieldMap True selectAlias
                = Inl (Error (fieldMappingMessage q)))
         \<and> (find (\<lambda>p. ownKeys fieldMap p = None) paths = None \<longrightarrow>
              buildSelectShapeInternal paths fieldMap True selectAlias
                = buildSelectShapeInternal paths fieldMap False selectAlias)"
proof -
  have own: "\<And>p. p \<in> set paths \<Longrightarrow> getProperty fieldMap p = ownKeys fieldMap p"
    using assms by (simp add: getProperty_ownKeys)
  have flt: "filter (\<lambda>p. getProperty fieldMap p \<noteq> None) paths
               = filter (\<lambda>p. ownKeys fieldMap p \<noteq> None) paths"
    by (rule filter_cong) (simp_all add: own)
  have fnd: "find (\<lambda>p. getProperty fieldMap p = None) paths
               = find (\<lambda>p. ownKeys fieldMap p = None) paths"
    by (rule find_cong) (simp_all add: own)
  have permissive: "selectLoop paths fieldMap False selectAlias Map.empty Map.empty
      = selectLoop (filter (\<lambda>p. ownKeys fieldMap p \<noteq> None) paths) fieldMap False selectAlias
          Map.empty Map.empty"
    using selectLoop_permissive_filter [of paths fieldMap selectAlias Map.empty Map.empty]
    by (simp only: flt)
  obtain shape where total: "selectLoop paths fieldMap False selectAlias Map.empty Map.empty
      = Inr shape"
    using selectLoop_permissive_total [of paths fieldMap selectAlias Map.empty Map.empty]
    by blast
  have strict_unmapped: "find (\<lambda>p. ownKeys fieldMap p = None) paths = Some q \<Longrightarrow>
      selectLoop paths fieldMap True selectAlias Map.empty Map.empty
        = Inl (Error (fieldMappingMessage q))"
    using selectLoop_strict_unmapped [of fieldMap paths q selectAlias Map.empty Map.empty]
    by (simp only: fnd)
  have strict_mapped: "find (\<lambda>p. ownKeys fieldMap p = None) paths = None \<Longrightarrow>
      selectLoop paths fieldMap True selectAlias Map.empty Map.empty
        = selectLoop paths fieldMap False selectAlias Map.empty Map.empty"
    using selectLoop_strict_all_mapped [of fieldMap paths selectAlias Map.empty Map.empty]
    by (simp only: fnd)
  show ?thesis
    unfolding buildSelectShapeInternal_def
    using permissive total strict_unmapped strict_mapped by metis
qed

theorem select_unmapped_paths_witness:
  "ownKeys usersFields ''unknownSelect'' = None
   \<and> inherited usersFields ''unknownSelect'' = None
   \<and> find (\<lambda>p. ownKeys usersFields p = None) [''name'', ''unknownSelect'', ''age'']
       = Some ''unknownSelect''
   \<and> buildSelectShapeInternal [''name'', ''unknownSelect'', ''age''] usersFields True
        defaultSelectAlias
       = Inl (Error (fieldMappingMessage ''unknownSelect''))
   \<and> buildSelectShapeInternal [''name'', ''unknownSelect'', ''age''] usersFields False
        defaultSelectAlias
       = Inr [''name'' \<mapsto> ''users.name'', ''age'' \<mapsto> ''users.age'']
   \<and> find (\<lambda>p. ownKeys usersFields p = None) [''name'', ''age''] = None
   \<and> buildSelectShapeInternal [''name'', ''age''] usersFields True defaultSelectAlias
       = Inr [''name'' \<mapsto> ''users.name'', ''age'' \<mapsto> ''users.age'']"
proof -
  have h1: "\<forall>p \<in> set [''name'', ''unknownSelect'', ''age''].
              ownKeys usersFields p = None \<longrightarrow> inherited usersFields p = None"
    by (simp add: usersFields_def objectLiteral_def objectPrototype_def)
  have h2: "\<forall>p \<in> set [''name'', ''age''].
              ownKeys usersFields p = None \<longrightarrow> inherited usersFields p = None"
    by (simp add: usersFields_def objectLiteral_def objectPrototype_def)
  have ev: "buildSelectShapeInternal [''name'', ''age''] usersFields False defaultSelectAlias
       = Inr [''name'' \<mapsto> ''users.name'', ''age'' \<mapsto> ''users.age'']"
    by (simp add: buildSelectShapeInternal_def getMappedColumn_def literal_lookups Let_def
        defaultSelectAlias_def setProperty_def)
  have f: "filter (\<lambda>p. ownKeys usersFields p \<noteq> None) [''name'', ''unknownSelect'', ''age'']
             = [''name'', ''age'']"
    by (simp add: usersFields_def objectLiteral_def)
  have own: "ownKeys usersFields ''name'' = Some ''users.name''"
    "ownKeys usersFields ''age'' = Some ''users.age''"
    "ownKeys usersFields ''unknownSelect'' = None"
    "inherited usersFields ''unknownSelect'' = None"
    by (simp_all add: usersFields_def objectLiteral_def objectPrototype_def)
  show ?thesis
    using
      select_unmapped_paths [OF h1, of defaultSelectAlias "''unknownSelect''"]
      select_unmapped_paths [OF h2, of defaultSelectAlias "''unknownSelect''"]
    by (simp add: ev f own)
qed

text \<open>
  Claim C3 promises that no entry of the select shape overwrites another. On the
  select list \<^verbatim>\<open>profile.name\<close>, \<^verbatim>\<open>profile_name\<close>, \<^verbatim>\<open>profile_name_1\<close>, all
  mapped, the second path collides with the first and is renamed
  \<^verbatim>\<open>profile_name_1\<close>; the third path has that very text as its base alias, used for
  the first time, so it keeps it and replaces the second path's column. The shape has
  two keys for three selected columns.
\<close>

theorem suffixed_alias_is_overwritten:
  "defaultSelectAlias ''profile.name'' = ''profile_name''
   \<and> buildSelectShapeInternal [''profile.name'', ''profile_name'']
        profileFields strict defaultSelectAlias
     = Inr [''profile_name'' \<mapsto> ''users.name'', ''profile_name_1'' \<mapsto> ''users.age'']
   \<and> buildSelectShapeInternal [''profile.name'', ''profile_name'', ''profile_name_1'']
        profileFields strict defaultSelectAlias
     = Inr [''profile_name'' \<mapsto> ''users.name'', ''profile_name_1'' \<mapsto> ''users.nick'']"
  by (simp add: buildSelectShapeInternal_def getMappedColumn_def getProperty_def
      profileFields_def objectLiteral_def setProperty_def Let_def
      defaultSelectAlias_def string_of_nat.simps digit_char_def)

section \<open>Properties of the clause assembler\<close>

text \<open>
  Claim C2, as the specification states it, says that an unmapped sort key is dropped
  under every mapping mode. The sort keys are resolved with the configured mode, so
  under strict mapping (also the default) an unmapped sort key ends the call with the
  field-mapping error.
\<close>

theorem sort_unmapped_strict_counterexample:
  "orderBy (Some [\<lparr>property = ''unknownSort'', direction = ASC\<rparr>]) usersFields pgOps True
     = Inl (Error (fieldMappingMessage ''unknownSort''))
   \<and> buildDrizzleClausesFromPagination
        (sortRequest [\<lparr>property = ''unknownSort'', direction = ASC\<rparr>])
        (pgConfig \<lparr> cfg_strictFieldMapping := Some True \<rparr>)
     = Inl (Error (fieldMappingMessage ''unknownSort''))
   \<and> buildDrizzleClausesFromPagination
        (sortRequest [\<lparr>property = ''unknownSort'', direction = ASC\<rparr>]) pgConfig
     = Inl (Error (fieldMappingMessage ''unknownSort''))"
  by (simp add: buildDrizzleClausesFromPagination_def sortRequest_def pgConfig_def
      buildSelectShapeInternal_def getMappedColumn_def literal_lookups Let_def orderBy_def
      sortItemToOrderExpr_def)

text \<open>
  Claim C2, amended. For every sort list in which no key outside the keys of the field
  mapping is the name of a property that the mapping object inherits: under permissive
  mapping the compilation never fails and keeps, in request order, the ordering
  expressions of the entries whose key is a key of the mapping, dropping the others;
  under strict mapping it fails with the field-mapping error naming the first sort key
  that is not a key of the mapping, and when every sort key is a key of the mapping it
  gives the same result as under permissive mapping.
\<close>

theorem sort_unmapped_keys:
  assumes "\<forall>i \<in> set items.
             ownKeys fieldMap (property i) = None \<longrightarrow> inherited fieldMap (property i) = None"
  shows "orderBy (Some items) fieldMap operators False
           = Inr (Some (List.map_filter
               (\<lambda>i. map_option (\<lambda>c. directionToOrderExpr (direction i) c operators)
                       (ownKeys fieldMap (property i))) items))
         \<and> (find (\<lambda>i. ownKeys fieldMap (property i) = None) items = Some j \<longrightarrow>
              orderBy (Some items) fieldMap operators True
                = Inl (Error (fieldMappingMessage (property j))))
         \<and> (find (\<lambda>i. ownKeys fieldMap (property i) = None) items = None \<longrightarrow>
              orderBy (Some items) fieldMap operators True
                = orderBy (Some items) fieldMap operators False)"
proof -
  have own: "\<And>i. i \<in> set items \<Longrightarrow>
               getProperty fieldMap (property i) = ownKeys fieldMap (property i)"
    using assms by (simp add: getProperty_ownKeys)
  have mp: "map (\<lambda>i. map_option (\<lambda>c. directionToOrderExpr (direction i) c operators)
                       (getProperty fieldMap (property i))) items
              = map (\<lambda>i. map_option (\<lambda>c. directionToOrderExpr (direction i) c operators)
                       (ownKeys fieldMap (property i))) items"
    by (rule map_cong) (simp_all add: own)
  have fnd: "find (\<lambda>i. getProperty fieldMap (property i) = None) items
               = find (\<lambda>i. ownKeys fieldMap (property i) = None) items"
    by (rule find_cong) (simp_all add: own)
  have permissive: "orderBy (Some items) fieldMap operators False
      = Inr (Some (List.map_filter
               (\<lambda>i. map_option (\<lambda>c. directionToOrderExpr (direction i) c operators)
                       (ownKeys fieldMap (property i))) items))"
    by (simp add: orderBy_def mapThrowing_sort_permissive mp List.map_filter_def filter_map
        comp_def)
  have strict_unmapped: "find (\<lambda>i. ownKeys fieldMap (property i) = None) items = Some j \<Longrightarrow>
      orderBy (Some items) fieldMap operators True = Inl (Error (fieldMappingMessage (property j)))"
    using mapThrowing_sort_strict_unmapped [of fieldMap items j operators]
    by (simp add: orderBy_def fnd)
  have strict_mapped: "find (\<lambda>i. ownKeys fieldMap (property i) = None) items = None \<Longrightarrow>
      orderBy (Some items) fieldMap operators True = orderBy (Some items) fieldMap operators False"
    using mapThrowing_sort_strict_all_mapped [of fieldMap items operators]
    by (simp add: orderBy_def fnd)
  show ?thesis
    using permissive strict_unmapped strict_mapped by blast
qed

theorem sort_unmapped_keys_witness:
  "ownKeys usersFields ''unknownSort'' = None
   \<and> inherited usersFields ''unknownSort'' = None
   \<and> find (\<lambda>i. ownKeys usersFields (property i) = None)
      [\<lparr>property = ''name'', direction = DESC\<rparr>, \<lparr>property = ''unknownSort'', direction = ASC\<rparr>]
     = Some \<lparr>property = ''unknownSort'', direction = ASC\<rparr>
   \<and> orderBy (Some [\<lparr>property = ''name'', direction = DESC\<rparr>,
                    \<lparr>property = ''unknownSort'', direction = ASC\<rparr>]) usersFields pgOps True
     = Inl (Error (fieldMappingMessage ''unknownSort''))
   \<and> orderBy (Some [\<lparr>property = ''name'', direction = DESC\<rparr>,
                    \<lparr>property = ''unknownSort'', direction = ASC\<rparr>]) usersFields pgOps False
     = Inr (Some [SqlDesc ''users.name''])
   \<and> find (\<lambda>i. ownKeys usersFields (property i) = None)
      [\<lparr>property = ''name'', direction = DESC\<rparr>, \<lparr>property = ''age'', direction = ASC\<rparr>]
     = None
   \<and> orderBy (Some [\<lparr>property = ''name'', direction = DESC\<rparr>,
                    \<lparr>property = ''age'', direction = ASC\<rparr>]) usersFields pgOps True
     = Inr (Some [SqlDesc ''users.name'', SqlAsc ''users.age''])"
proof -
  have h1: "\<forall>i \<in> set [\<lparr>property = ''name'', direction = DESC\<rparr>,
                \<lparr>property = ''unknownSort'', direction = ASC\<rparr>].
      ownKeys usersFields (property i) = None \<longrightarrow> inherited usersFields (property i) = None"
    by (simp add: usersFields_def objectLiteral_def objectPrototype_def)
  have h2: "\<forall>i \<in> set [\<lparr>property = ''name'', direction = DESC\<rparr>,
                \<lparr>property = ''age'', direction = ASC\<rparr>].
      ownKeys usersFields (property i) = None \<longrightarrow> inherited usersFields (property i) = None"
    by (simp add: usersFields_def objectLiteral_def objectPrototype_def)
  have own: "ownKeys usersFields ''name'' = Some ''users.name''"
    "ownKeys usersFields ''age'' = Some ''users.age''"
    "ownKeys usersFields ''unknownSort'' = None"
    "inherited usersFields ''unknownSort'' = None"
    by (simp_all add: usersFields_def objectLiteral_def objectPrototype_def)
  show ?thesis
    using
      sort_unmapped_keys [OF h1, of pgOps "\<lparr>property = ''unknownSort'', direction = ASC\<rparr>"]
      sort_unmapped_keys [OF h2, of pgOps "\<lparr>property = ''unknownSort'', direction = ASC\<rparr>"]
    by (simp add: own directionToOrderExpr_def pgOps_def createPgDrizzleOperators_def
        termDrizzle_def)
qed

text \<open>
  Claim C4, as the specification states it, gives every request with a page number
  and a limit the offset \<open>(max page 1 - 1) * limit\<close>. The assembler computes the offset
  for requests of type \<^verbatim>\<open>LIMIT_OFFSET\<close> only: a request of another type with page 2 and
  limit 10 has no offset, where the claim gives 10.
\<close>

theorem offset_other_type_counterexample:
  "map_sum id c_offset
     (buildDrizzleClausesFromPagination (pageRequest CURSOR (Some 2) (Some 10)) pgConfig)
     = Inr None
   \<and> map_sum id c_offset
     (buildDrizzleClausesFromPagination (pageRequest CURSOR (Some 2) (Some 10)) pgConfig)
       \<noteq> Inr (Some ((max 2 1 - 1) * 10))"
  by (simp add: build_pageRequest) (simp add: pageRequest_def offset_def)

text \<open>
  Claim C4, amended. For every request of type \<^verbatim>\<open>LIMIT_OFFSET\<close> in which a page number
  and a limit are both present, the assembled offset is \<open>(max page 1 - 1) * limit\<close>, so
  that page 0, negative pages and page 1 all give offset 0; and whenever the limit is
  absent the offset is absent.
\<close>

theorem offset_of_limit_offset_request:
  assumes "buildDrizzleClausesFromPagination parsed config = Inr cl"
  shows "(ptype (pq_pagination parsed) = LIMIT_OFFSET \<and> page (pq_pagination parsed) = Some pg
            \<and> limit (pq_pagination parsed) = Some lim
          \<longrightarrow> c_offset cl = Some ((max pg 1 - 1) * lim) \<and> (pg \<le> 1 \<longrightarrow> c_offset cl = Some 0))
       \<and> (limit (pq_pagination parsed) = None \<longrightarrow> c_offset cl = None)"
  using build_Inr_limit_offset [OF assms]
  by (auto simp: offset_def max_def split: option.splits if_splits)

theorem offset_of_limit_offset_request_witness:
  "map_sum id c_offset
     (buildDrizzleClausesFromPagination (pageRequest LIMIT_OFFSET (Some 2) (Some 10)) pgConfig)
     = Inr (Some 10)
   \<and> map_sum id c_offset
     (buildDrizzleClausesFromPagination (pageRequest LIMIT_OFFSET (Some 0) (Some 10)) pgConfig)
     = Inr (Some 0)
   \<and> map_sum id c_offset
     (buildDrizzleClausesFromPagination (pageRequest LIMIT_OFFSET (Some (- 3)) (Some 10)) pgConfig)
     = Inr (Some 0)
   \<and> map_sum id c_offset
     (buildDrizzleClausesFromPagination (pageRequest LIMIT_OFFSET (Some 1) (Some 10)) pgConfig)
     = Inr (Some 0)
   \<and> map_sum id c_offset
     (buildDrizzleClausesFromPagination (pageRequest LIMIT_OFFSET (Some 2) None) pgConfig)
     = Inr None"
  using
    offset_of_limit_offset_request [OF build_pageRequest [of LIMIT_OFFSET "Some 2" "Some 10"], of 2 10]
    offset_of_limit_offset_request [OF build_pageRequest [of LIMIT_OFFSET "Some 0" "Some 10"], of 0 10]
    offset_of_limit_offset_request [OF build_pageRequest [of LIMIT_OFFSET "Some (- 3)" "Some 10"],
      of "- 3" 10]
    offset_of_limit_offset_request [OF build_pageRequest [of LIMIT_OFFSET "Some 1" "Some 10"], of 1 10]
    offset_of_limit_offset_request [OF build_pageRequest [of LIMIT_OFFSET "Some 2" None], of 2 10]
  by (simp add: build_pageRequest) (simp add: pageRequest_def)

text \<open>
  Claim C10. In every assembled bundle the limit is the request's, unchanged, and an
  offset is present only if the request's type is \<^verbatim>\<open>LIMIT_OFFSET\<close>: a request of any
  other type has no offset, even with a page number and a limit.
\<close>

theorem offset_needs_limit_offset_type:
  assumes "buildDrizzleClausesFromPagination parsed config = Inr cl"
  shows "c_limit cl = limit (pq_pagination parsed)
       \<and> (c_offset cl \<noteq> None \<longrightarrow> ptype (pq_pagination parsed) = LIMIT_OFFSET)
       \<and> (ptype (pq_pagination parsed) \<noteq> LIMIT_OFFSET \<longrightarrow> c_offset cl = None)"
  using build_Inr_limit_offset [OF assms]
  by (auto simp: offset_def split: option.splits if_splits)

theorem offset_needs_limit_offset_type_witness:
  "buildDrizzleClausesFromPagination (pageRequest CURSOR (Some 2) (Some 10)) pgConfig
     = Inr \<lparr> c_select = Map.empty, c_where = None, c_orderBy = None, c_limit = Some 10,
             c_offset = None \<rparr>
   \<and> buildDrizzleClausesFromPagination (pageRequest LIMIT_OFFSET (Some 2) (Some 10)) pgConfig
     = Inr \<lparr> c_select = Map.empty, c_where = None, c_orderBy = None, c_limit = Some 10,
             c_offset = Some 10 \<rparr>"
proof -
  have a: "buildDrizzleClausesFromPagination (pageRequest CURSOR (Some 2) (Some 10)) pgConfig
     = Inr \<lparr> c_select = Map.empty, c_where = None, c_orderBy = None, c_limit = Some 10,
             c_offset = None \<rparr>"
    by (simp add: build_pageRequest) (simp add: pageRequest_def offset_def)
  have b: "buildDrizzleClausesFromPagination (pageRequest LIMIT_OFFSET (Some 2) (Some 10)) pgConfig
     = Inr \<lparr> c_select = Map.empty, c_where = None, c_orderBy = None, c_limit = Some 10,
             c_offset = Some 10 \<rparr>"
    by (simp add: build_pageRequest) (simp add: pageRequest_def offset_def)
  show ?thesis
    using offset_needs_limit_offset_type [OF a] offset_needs_limit_offset_type [OF b] a b
    by simp
qed

end
